theory Spec2Isabelle
  imports Complex_Main
begin

text \<open>
  A model of the control logic of the camera web client: the components
  \<^verbatim>\<open>CameraStream\<close>, \<^verbatim>\<open>CameraModeSelector\<close> and \<^verbatim>\<open>Gallery\<close>. A component
  is a record of its \<^verbatim>\<open>useState\<close> values; a handler is a function from state to
  state, with the response it awaits as an argument. What is sent and what is scheduled
  is recorded in the state. Markup, formatting of sizes and dates, downloads and the
  one-second counter of the recording duration are left out.
\<close>

section \<open>The HTTP boundary\<close>

text \<open>
  The components talk to the camera server with \<^verbatim>\<open>fetch\<close>. Every network call a
  handler makes is appended to a log kept in the component's state, so that "no network
  call was made" is a statement about that log. Assigning the stream URL to the
  \<^verbatim>\<open>img\<close> element opens the live feed; it is logged as \<open>GET_stream\<close> (the
  \<^verbatim>\<open>?t=Date.now()\<close> cache token is not modelled).
\<close>

type_synonym number = real

datatype request =
    GET_status | GET_start | GET_stop | GET_restart | GET_stream
  | POST_capture | POST_recording_start | POST_recording_stop
  | POST_mode string | GET_modes | GET_pictures | GET_recordings

text \<open>
  What an awaited \<^verbatim>\<open>fetch\<close> gives back: the promise rejects (\<open>Rejected\<close>), or it
  resolves with a response whose \<^verbatim>\<open>ok\<close> flag is false (\<open>Status_not_ok\<close>) or true
  (\<open>Status_ok\<close>). The argument is the result of \<^verbatim>\<open>response.json()\<close>: \<open>None\<close>
  when that promise rejects. An error body is the \<^verbatim>\<open>error\<close> field of the parsed
  object (\<open>None\<close> when the field is absent). A parsed 2xx body has the shape its endpoint
  declares; a field is optional where the source declares it nullable or guards its
  absence.
\<close>

datatype 'b response =
    Rejected
  | Status_not_ok "string option option"
  | Status_ok "'b option"

text \<open>
  \<^verbatim>\<open>const errorData = await response.json().catch(() => ({}))\<close> followed by
  \<^verbatim>\<open>errorData.error || dflt\<close>: the default stands in when the body does not parse,
  has no \<^verbatim>\<open>error\<close> field, or the field is the empty string.
\<close>

definition error_or :: "string option option \<Rightarrow> string \<Rightarrow> string" where
  "error_or body dflt =
     (case body of
        None \<Rightarrow> dflt
      | Some None \<Rightarrow> dflt
      | Some (Some e) \<Rightarrow> (if e = [] then dflt else e))"

section \<open>CameraStream: data\<close>

record CameraMode =
  cm_width :: number
  cm_height :: number
  cm_framerate :: number
  cm_name :: string

record RecordingStatus =
  rs_recording :: bool
  rs_filename :: "string option"
  rs_duration :: "number option"
  rs_start_time :: "number option"

datatype power = active | inactive

record CameraStatus =
  cs_status :: power
  cs_streaming :: bool
  cs_last_access :: "number option"
  cs_current_mode :: "CameraMode option"
  cs_recording :: "RecordingStatus option"

record CapturedImage =
  ci_filename :: string
  ci_url :: string
  ci_timestamp :: string

record SavedRecording =
  sr_filename :: string
  sr_url :: string
  sr_duration :: number

text \<open>The body of a successful \<^verbatim>\<open>recording/start\<close> response carries a file name.\<close>

record StartedRecording =
  st_filename :: string

text \<open>
  The success messages are template strings over the response; they are kept as the
  template's name and arguments.
\<close>

datatype notice =
    Picture_captured string
  | Recording_started string
  | Recording_saved string number

text \<open>
  The callbacks handed to \<^verbatim>\<open>setTimeout\<close>. \<open>ErrorRetry\<close> carries the value of
  \<^verbatim>\<open>isStreaming\<close> its closure captured, \<open>RestartReload\<close> none: it reads only the
  \<^verbatim>\<open>img\<close> ref.
\<close>

datatype callback =
    StreamInit
  | StatusCheck
  | RestartReload
  | ErrorRetry bool
  | ClearCaptureSuccess
  | ClearRecordingSuccess

record CameraStream =
  isStreaming :: bool
  cameraStatus :: "CameraStatus option"
  isLoading :: bool
  error :: "string option"
  isServerConnected :: bool
  isCapturing :: bool
  lastCapturedImage :: "CapturedImage option"
  captureSuccess :: "notice option"
  isRecording :: bool
  recordingDuration :: number
  lastRecording :: "SavedRecording option"
  recordingSuccess :: "notice option"
  requests :: "request list"
  timers :: "(nat \<times> callback) list"

text \<open>The state of \<^verbatim>\<open>useState\<close>'s initial values, with nothing sent yet.\<close>

definition initial :: CameraStream where
  "initial =
     \<lparr>isStreaming = False, cameraStatus = None, isLoading = False, error = None,
      isServerConnected = False, isCapturing = False, lastCapturedImage = None,
      captureSuccess = None, isRecording = False, recordingDuration = 0,
      lastRecording = None, recordingSuccess = None, requests = [], timers = []\<rparr>"

text \<open>
  The \<^verbatim>\<open>img\<close> element, and with it \<^verbatim>\<open>imgRef.current\<close>, exists exactly while
  the component is rendered with \<^verbatim>\<open>isStreaming\<close> true
  (\<^verbatim>\<open>{isStreaming ? <img ref={imgRef} .../> : ...}\<close>).
\<close>

definition imgRef_current :: "CameraStream \<Rightarrow> bool" where
  "imgRef_current st = isStreaming st"

definition send :: "request \<Rightarrow> CameraStream \<Rightarrow> CameraStream" where
  "send q st = st\<lparr>requests := requests st @ [q]\<rparr>"

definition setTimeout :: "callback \<Rightarrow> nat \<Rightarrow> CameraStream \<Rightarrow> CameraStream" where
  "setTimeout cb ms st = st\<lparr>timers := timers st @ [(ms, cb)]\<rparr>"

section \<open>CameraStream: handlers\<close>

text \<open>
  An \<^verbatim>\<open>async\<close> handler runs up to its \<^verbatim>\<open>await fetch(...)\<close> (\<open>_begin\<close>), and
  resumes when the response arrives (\<open>_response\<close>); other events may run in between.
\<close>

subsection \<open>checkStatus\<close>

definition checkStatus_begin :: "CameraStream \<Rightarrow> CameraStream" where
  "checkStatus_begin st = send GET_status st"

definition number_or_zero :: "number option \<Rightarrow> number" where
  "number_or_zero d = (case d of None \<Rightarrow> 0 | Some v \<Rightarrow> (if v = 0 then 0 else v))"

definition checkStatus_response :: "CameraStatus response \<Rightarrow> CameraStream \<Rightarrow> CameraStream" where
  "checkStatus_response r st =
     (case r of
        Status_ok (Some status) \<Rightarrow>
          (let st1 = st\<lparr>cameraStatus := Some status, isServerConnected := True, error := None\<rparr>
           in case cs_recording status of
                Some rec \<Rightarrow>
                  st1\<lparr>isRecording := rs_recording rec,
                      recordingDuration := number_or_zero (rs_duration rec)\<rparr>
              | None \<Rightarrow> st1)
      | Status_not_ok b \<Rightarrow>
          st\<lparr>isServerConnected := False, error := Some ''Camera server not responding''\<rparr>
      | _ \<Rightarrow>
          st\<lparr>isServerConnected := False,
             error := Some ''Cannot connect to camera server. Make sure it's running on port 5000.''\<rparr>)"

subsection \<open>startStreaming, stopStreaming\<close>

definition startStreaming_begin :: "CameraStream \<Rightarrow> CameraStream" where
  "startStreaming_begin st = send GET_start (st\<lparr>isLoading := True, error := None\<rparr>)"

definition startStreaming_response :: "'b response \<Rightarrow> CameraStream \<Rightarrow> CameraStream" where
  "startStreaming_response r st =
     (case r of
        Status_ok b \<Rightarrow> setTimeout StreamInit 1000 (st\<lparr>isStreaming := True\<rparr>)
      | Status_not_ok b \<Rightarrow> st\<lparr>error := Some (error_or b ''Failed to start camera streaming'')\<rparr>
      | Rejected \<Rightarrow>
          st\<lparr>error := Some ''Error starting camera stream. Make sure the camera server is running.''\<rparr>)
     \<lparr>isLoading := False\<rparr>"

text \<open>
  On success \<^verbatim>\<open>stopStreaming\<close> also clears the \<^verbatim>\<open>src\<close> of the image, which
  sends nothing.
\<close>

definition stopStreaming_begin :: "CameraStream \<Rightarrow> CameraStream" where
  "stopStreaming_begin st = send GET_stop (st\<lparr>isLoading := True, error := None\<rparr>)"

definition stopStreaming_response :: "'b response \<Rightarrow> CameraStream \<Rightarrow> CameraStream" where
  "stopStreaming_response r st =
     (case r of
        Status_ok b \<Rightarrow> st\<lparr>isStreaming := False\<rparr>
      | Status_not_ok b \<Rightarrow> st\<lparr>error := Some ''Failed to stop camera streaming''\<rparr>
      | Rejected \<Rightarrow> st\<lparr>error := Some ''Error stopping camera stream''\<rparr>)
     \<lparr>isLoading := False\<rparr>"

subsection \<open>restartCamera\<close>

text \<open>
  After a 2xx response the handler awaits \<^verbatim>\<open>checkStatus()\<close>, so it has a second
  suspension: \<open>restartCamera_response\<close> ends by sending the status request, and
  \<open>restartCamera_status\<close> resumes with the status response. \<^verbatim>\<open>checkStatus\<close>
  catches its own errors, so the await always falls through to the test of
  \<^verbatim>\<open>isStreaming\<close>, which is the value the closure captured when the handler was
  called (\<open>was_streaming\<close>).
\<close>

definition restartCamera_begin :: "CameraStream \<Rightarrow> CameraStream" where
  "restartCamera_begin st = send GET_restart (st\<lparr>isLoading := True, error := None\<rparr>)"

definition restartCamera_response :: "'b response \<Rightarrow> CameraStream \<Rightarrow> CameraStream" where
  "restartCamera_response r st =
     (case r of
        Status_ok b \<Rightarrow> checkStatus_begin st
      | Status_not_ok b \<Rightarrow> st\<lparr>error := Some ''Failed to restart camera'', isLoading := False\<rparr>
      | Rejected \<Rightarrow> st\<lparr>error := Some ''Error restarting camera'', isLoading := False\<rparr>)"

definition restartCamera_status :: "bool \<Rightarrow> CameraStatus response \<Rightarrow> CameraStream \<Rightarrow> CameraStream" where
  "restartCamera_status was_streaming s st =
     (let st1 = checkStatus_response s st;
          st2 = (if was_streaming then setTimeout RestartReload 1000 st1 else st1)
      in st2\<lparr>isLoading := False\<rparr>)"

text \<open>The whole handler, run with nothing else in between.\<close>

definition restartCamera :: "'b response \<Rightarrow> CameraStatus response \<Rightarrow> CameraStream \<Rightarrow> CameraStream" where
  "restartCamera r s st =
     (case r of
        Status_ok b \<Rightarrow>
          restartCamera_status (isStreaming st) s (restartCamera_response r (restartCamera_begin st))
      | _ \<Rightarrow> restartCamera_response r (restartCamera_begin st))"

subsection \<open>The stream image\<close>

definition handleImageError :: "CameraStream \<Rightarrow> CameraStream" where
  "handleImageError st =
     (if imgRef_current st \<and> isStreaming st
      then setTimeout (ErrorRetry (isStreaming st)) 2000 st
      else st\<lparr>error := Some ''Failed to load camera stream. Try restarting the camera.'',
              isStreaming := False\<rparr>)"

definition handleImageLoad :: "CameraStream \<Rightarrow> CameraStream" where
  "handleImageLoad st = st\<lparr>error := None\<rparr>"

subsection \<open>capturePicture, startRecording, stopRecording\<close>

definition capturePicture_begin :: "CameraStream \<Rightarrow> CameraStream" where
  "capturePicture_begin st =
     send POST_capture (st\<lparr>isCapturing := True, error := None, captureSuccess := None\<rparr>)"

definition capturePicture_response :: "CapturedImage response \<Rightarrow> CameraStream \<Rightarrow> CameraStream" where
  "capturePicture_response r st =
     (case r of
        Status_ok (Some result) \<Rightarrow>
          setTimeout ClearCaptureSuccess 5000
            (st\<lparr>lastCapturedImage :=
                   Some \<lparr>ci_filename = ci_filename result, ci_url = ci_url result,
                         ci_timestamp = ci_timestamp result\<rparr>,
                 captureSuccess := Some (Picture_captured (ci_filename result))\<rparr>)
      | Status_not_ok b \<Rightarrow> st\<lparr>error := Some (error_or b ''Failed to capture picture'')\<rparr>
      | _ \<Rightarrow>
          st\<lparr>error := Some ''Error capturing picture. Make sure the camera server is running.''\<rparr>)
     \<lparr>isCapturing := False\<rparr>"

definition startRecording_begin :: "CameraStream \<Rightarrow> CameraStream" where
  "startRecording_begin st =
     send POST_recording_start (st\<lparr>error := None, recordingSuccess := None\<rparr>)"

definition startRecording_response :: "StartedRecording response \<Rightarrow> CameraStream \<Rightarrow> CameraStream" where
  "startRecording_response r st =
     (case r of
        Status_ok (Some result) \<Rightarrow>
          setTimeout ClearRecordingSuccess 3000
            (st\<lparr>isRecording := True, recordingDuration := 0,
                 recordingSuccess := Some (Recording_started (st_filename result))\<rparr>)
      | Status_not_ok b \<Rightarrow> st\<lparr>error := Some (error_or b ''Failed to start recording'')\<rparr>
      | _ \<Rightarrow>
          st\<lparr>error := Some ''Error starting recording. Make sure the camera server is running.''\<rparr>)"

definition stopRecording_begin :: "CameraStream \<Rightarrow> CameraStream" where
  "stopRecording_begin st =
     send POST_recording_stop (st\<lparr>error := None, recordingSuccess := None\<rparr>)"

definition stopRecording_response :: "SavedRecording response \<Rightarrow> CameraStream \<Rightarrow> CameraStream" where
  "stopRecording_response r st =
     (case r of
        Status_ok (Some result) \<Rightarrow>
          setTimeout ClearRecordingSuccess 5000
            (st\<lparr>isRecording := False, recordingDuration := 0,
                 lastRecording :=
                   Some \<lparr>sr_filename = sr_filename result, sr_url = sr_url result,
                         sr_duration = sr_duration result\<rparr>,
                 recordingSuccess :=
                   Some (Recording_saved (sr_filename result) (sr_duration result))\<rparr>)
      | Status_not_ok b \<Rightarrow> st\<lparr>error := Some (error_or b ''Failed to stop recording'')\<rparr>
      | _ \<Rightarrow>
          st\<lparr>error := Some ''Error stopping recording. Make sure the camera server is running.''\<rparr>)"

subsection \<open>Timers\<close>

text \<open>
  What each scheduled callback does when it runs. \<open>StreamInit\<close> is the callback of
  \<^verbatim>\<open>startStreaming\<close>: it opens the feed and schedules \<open>StatusCheck\<close>, which is
  \<^verbatim>\<open>checkStatus\<close> itself.
\<close>

fun fire :: "callback \<Rightarrow> CameraStream \<Rightarrow> CameraStream" where
  "fire StreamInit st =
     setTimeout StatusCheck 2000 (if imgRef_current st then send GET_stream st else st)"
| "fire StatusCheck st = checkStatus_begin st"
| "fire RestartReload st = (if imgRef_current st then send GET_stream st else st)"
| "fire (ErrorRetry was_streaming) st =
     (if imgRef_current st \<and> was_streaming then send GET_stream st else st)"
| "fire ClearCaptureSuccess st = st\<lparr>captureSuccess := None\<rparr>"
| "fire ClearRecordingSuccess st = st\<lparr>recordingSuccess := None\<rparr>"

text \<open>A pending timer expires: it leaves the list and its callback runs.\<close>

definition timer_fires :: "nat \<times> callback \<Rightarrow> CameraStream \<Rightarrow> CameraStream" where
  "timer_fires t st =
     (if t \<in> set (timers st) then fire (snd t) (st\<lparr>timers := remove1 t (timers st)\<rparr>) else st)"

text \<open>\<^verbatim>\<open>setInterval(checkStatus, 5000)\<close>: the poll runs whatever the state is.\<close>

definition poll :: "CameraStream \<Rightarrow> CameraStream" where
  "poll st = checkStatus_begin st"

subsection \<open>Buttons\<close>

text \<open>
  A handler starts only through its button. A button can be clicked when it is rendered
  (start and stop, and the two recording buttons, replace each other) and its
  \<^verbatim>\<open>disabled\<close> attribute is false; a click on anything else does nothing.
\<close>

datatype button =
    Start_Stream | Stop_Stream | Restart_Camera | Refresh_Status
  | Take_Picture | Start_Recording | Stop_Recording

text \<open>
  \<^verbatim>\<open>!cameraStatus?.status\<close>: the status string is \<^verbatim>\<open>'active'\<close> or
  \<^verbatim>\<open>'inactive'\<close>, both truthy, so the test is whether a status has been received.
\<close>

definition has_status :: "CameraStream \<Rightarrow> bool" where
  "has_status st =
     (case cameraStatus st of
        None \<Rightarrow> False
      | Some s \<Rightarrow> (case cs_status s of active \<Rightarrow> True | inactive \<Rightarrow> True))"

fun rendered :: "button \<Rightarrow> CameraStream \<Rightarrow> bool" where
  "rendered Start_Stream st = (\<not> isStreaming st)"
| "rendered Stop_Stream st = isStreaming st"
| "rendered Start_Recording st = (\<not> isRecording st)"
| "rendered Stop_Recording st = isRecording st"
| "rendered b st = True"

fun disabled :: "button \<Rightarrow> CameraStream \<Rightarrow> bool" where
  "disabled Start_Stream st = (isLoading st \<or> \<not> isServerConnected st)"
| "disabled Stop_Stream st = isLoading st"
| "disabled Restart_Camera st = (isLoading st \<or> \<not> isServerConnected st)"
| "disabled Refresh_Status st = isLoading st"
| "disabled Take_Picture st =
     (isCapturing st \<or> \<not> isServerConnected st \<or> \<not> has_status st \<or> \<not> isStreaming st)"
| "disabled Start_Recording st = (\<not> isServerConnected st \<or> \<not> has_status st)"
| "disabled Stop_Recording st = False"

fun onClick :: "button \<Rightarrow> CameraStream \<Rightarrow> CameraStream" where
  "onClick Start_Stream st = startStreaming_begin st"
| "onClick Stop_Stream st = stopStreaming_begin st"
| "onClick Restart_Camera st = restartCamera_begin st"
| "onClick Refresh_Status st = checkStatus_begin st"
| "onClick Take_Picture st = capturePicture_begin st"
| "onClick Start_Recording st = startRecording_begin st"
| "onClick Stop_Recording st = stopRecording_begin st"

definition click :: "button \<Rightarrow> CameraStream \<Rightarrow> CameraStream" where
  "click b st = (if rendered b st \<and> \<not> disabled b st then onClick b st else st)"

section \<open>CameraModeSelector\<close>

record ModeEntry =
  me_id :: string
  me_name :: string
  me_width :: number
  me_height :: number
  me_framerate :: number
  me_description :: string

record CameraModeData =
  available_modes :: "ModeEntry list"
  current_mode :: CameraMode

text \<open>
  The props: whether an \<^verbatim>\<open>onModeChange\<close> callback is given, and \<^verbatim>\<open>disabled\<close>.
  Calls of the callback are logged with their argument.
\<close>

record Props =
  has_onModeChange :: bool
  disabled_prop :: bool

record CameraModeSelector =
  modes :: "ModeEntry list"
  currentMode :: "ModeEntry option"
  selectedModeId :: string
  sel_isLoading :: bool
  isChanging :: bool
  sel_error :: "string option"
  sel_requests :: "request list"
  onModeChange_calls :: "ModeEntry list"

definition sel_initial :: CameraModeSelector where
  "sel_initial =
     \<lparr>modes = [], currentMode = None, selectedModeId = [], sel_isLoading = False,
      isChanging = False, sel_error = None, sel_requests = [], onModeChange_calls = []\<rparr>"

definition fetchModes_begin :: "CameraModeSelector \<Rightarrow> CameraModeSelector" where
  "fetchModes_begin st =
     st\<lparr>sel_isLoading := True, sel_error := None, sel_requests := sel_requests st @ [GET_modes]\<rparr>"

definition fetchModes_response :: "CameraModeData response \<Rightarrow> CameraModeSelector \<Rightarrow> CameraModeSelector" where
  "fetchModes_response r st =
     (case r of
        Status_ok (Some data) \<Rightarrow>
          (let st1 = st\<lparr>modes := available_modes data\<rparr>
           in case find (\<lambda>mode. me_width mode = cm_width (current_mode data) \<and>
                                me_height mode = cm_height (current_mode data) \<and>
                                me_framerate mode = cm_framerate (current_mode data))
                        (available_modes data) of
                Some current \<Rightarrow> st1\<lparr>currentMode := Some current, selectedModeId := me_id current\<rparr>
              | None \<Rightarrow> st1)
      | Status_not_ok b \<Rightarrow> st\<lparr>sel_error := Some ''Failed to fetch camera modes''\<rparr>
      | _ \<Rightarrow> st\<lparr>sel_error := Some ''Cannot connect to camera server''\<rparr>)
     \<lparr>sel_isLoading := False\<rparr>"

text \<open>
  \<^verbatim>\<open>if (!modeId || modeId === currentMode?.id) return\<close>: the handler returns before
  it touches anything.
\<close>

definition changeMode_returns_early :: "string \<Rightarrow> CameraModeSelector \<Rightarrow> bool" where
  "changeMode_returns_early modeId st =
     (modeId = [] \<or> (case currentMode st of None \<Rightarrow> False | Some c \<Rightarrow> modeId = me_id c))"

definition changeMode_begin :: "string \<Rightarrow> CameraModeSelector \<Rightarrow> CameraModeSelector" where
  "changeMode_begin modeId st =
     (if changeMode_returns_early modeId st then st
      else st\<lparr>isChanging := True, sel_error := None,
              sel_requests := sel_requests st @ [POST_mode modeId]\<rparr>)"

text \<open>
  The continuation searches \<^verbatim>\<open>modes\<close> as the closure captured it when the handler
  was called (\<open>captured_modes\<close>).
\<close>

definition changeMode_response ::
  "Props \<Rightarrow> ModeEntry list \<Rightarrow> string \<Rightarrow> 'b response \<Rightarrow> CameraModeSelector \<Rightarrow> CameraModeSelector" where
  "changeMode_response props captured_modes modeId r st =
     (case r of
        Status_ok (Some data) \<Rightarrow>
          (case find (\<lambda>mode. me_id mode = modeId) captured_modes of
             Some newMode \<Rightarrow>
               (let st1 = st\<lparr>currentMode := Some newMode, selectedModeId := modeId\<rparr>
                in if has_onModeChange props
                   then st1\<lparr>onModeChange_calls := onModeChange_calls st1 @ [newMode]\<rparr>
                   else st1)
           | None \<Rightarrow> st)
      | Status_not_ok b \<Rightarrow> st\<lparr>sel_error := Some (error_or b ''Failed to change camera mode'')\<rparr>
      | _ \<Rightarrow> st\<lparr>sel_error := Some ''Error changing camera mode''\<rparr>)
     \<lparr>isChanging := False\<rparr>"

text \<open>The whole handler, run with nothing else in between.\<close>

definition changeMode :: "Props \<Rightarrow> string \<Rightarrow> 'b response \<Rightarrow> CameraModeSelector \<Rightarrow> CameraModeSelector" where
  "changeMode props modeId r st =
     (if changeMode_returns_early modeId st then st
      else changeMode_response props (modes st) modeId r (changeMode_begin modeId st))"

text \<open>
  The \<^verbatim>\<open>Select\<close> calls \<^verbatim>\<open>changeMode\<close> unless it is disabled
  (\<^verbatim>\<open>disabled || isChanging\<close>). \<^verbatim>\<open>CameraStream\<close> renders the selector with
  \<^verbatim>\<open>disabled={!isServerConnected || isLoading}\<close> and its \<^verbatim>\<open>handleModeChange\<close>.
\<close>

definition onValueChange :: "Props \<Rightarrow> string \<Rightarrow> CameraModeSelector \<Rightarrow> CameraModeSelector" where
  "onValueChange props modeId st =
     (if disabled_prop props \<or> isChanging st then st else changeMode_begin modeId st)"

definition selector_props :: "CameraStream \<Rightarrow> Props" where
  "selector_props cs =
     \<lparr>has_onModeChange = True, disabled_prop = (\<not> isServerConnected cs \<or> isLoading cs)\<rparr>"

section \<open>Gallery\<close>

record MediaFile =
  mf_filename :: string
  mf_url :: string
  mf_size :: number
  mf_created :: number

record GalleryData =
  pictures :: "MediaFile list"
  recordings :: "MediaFile list"

record Gallery =
  galleryData :: GalleryData
  g_isLoading :: bool
  g_error :: "string option"
  g_requests :: "request list"

definition g_initial :: Gallery where
  "g_initial =
     \<lparr>galleryData = \<lparr>pictures = [], recordings = []\<rparr>, g_isLoading = False,
      g_error = None, g_requests = []\<rparr>"

text \<open>
  \<^verbatim>\<open>picturesData.pictures || []\<close>: the body's list field, \<open>None\<close> when the body has
  no such field. An array is truthy even when empty.
\<close>

definition array_or_empty :: "'a list option \<Rightarrow> 'a list" where
  "array_or_empty field = (case field of None \<Rightarrow> [] | Some files \<Rightarrow> files)"

definition fetchGalleryData_begin :: "Gallery \<Rightarrow> Gallery" where
  "fetchGalleryData_begin st =
     st\<lparr>g_isLoading := True, g_error := None,
        g_requests := g_requests st @ [GET_pictures, GET_recordings]\<rparr>"

text \<open>
  Both requests go out together (\<^verbatim>\<open>Promise.all\<close>); the handler resumes with both
  responses, or in \<^verbatim>\<open>catch\<close> when either fetch, or either \<^verbatim>\<open>json()\<close>, rejects.
\<close>

definition fetchGalleryData_response ::
  "MediaFile list option response \<Rightarrow> MediaFile list option response \<Rightarrow> Gallery \<Rightarrow> Gallery" where
  "fetchGalleryData_response picturesResponse recordingsResponse st =
     (case (picturesResponse, recordingsResponse) of
        (Rejected, _) \<Rightarrow> st\<lparr>g_error := Some ''Error connecting to camera server''\<rparr>
      | (_, Rejected) \<Rightarrow> st\<lparr>g_error := Some ''Error connecting to camera server''\<rparr>
      | (Status_ok (Some picturesData), Status_ok (Some recordingsData)) \<Rightarrow>
          st\<lparr>galleryData := \<lparr>pictures = array_or_empty picturesData,
                              recordings = array_or_empty recordingsData\<rparr>\<rparr>
      | (Status_ok _, Status_ok _) \<Rightarrow> st\<lparr>g_error := Some ''Error connecting to camera server''\<rparr>
      | _ \<Rightarrow> st\<lparr>g_error := Some ''Failed to fetch gallery data''\<rparr>)
     \<lparr>g_isLoading := False\<rparr>"

definition totalFiles :: "Gallery \<Rightarrow> nat" where
  "totalFiles st = length (pictures (galleryData st)) + length (recordings (galleryData st))"

definition totalSize :: "Gallery \<Rightarrow> number" where
  "totalSize st =
     foldl (\<lambda>sum file. sum + mf_size file) 0
       (pictures (galleryData st) @ recordings (galleryData st))"

section \<open>Failed calls\<close>

text \<open>
  A call gives no result when the fetch rejects, the status is not 2xx, or a 2xx body
  does not parse: these are the responses that take a handler which reads the body to
  its error branch or its \<^verbatim>\<open>catch\<close>. The handlers of start, stop and restart never
  read a 2xx body, so for them only a rejected fetch or a status that is not 2xx counts.
\<close>

definition no_result :: "'b response \<Rightarrow> bool" where
  "no_result r = (case r of Status_ok (Some b) \<Rightarrow> False | _ \<Rightarrow> True)"

definition not_ok :: "'b response \<Rightarrow> bool" where
  "not_ok r = (case r of Status_ok b \<Rightarrow> False | _ \<Rightarrow> True)"

text \<open>
  \<open>preserved\<close>: the streaming and recording state is the same in both states.
  \<open>surfaced\<close>: an error message is shown, and nothing was sent or scheduled.
\<close>

definition preserved :: "CameraStream \<Rightarrow> CameraStream \<Rightarrow> bool" where
  "preserved before after =
     (isStreaming after = isStreaming before \<and> isRecording after = isRecording before \<and>
      recordingDuration after = recordingDuration before \<and>
      cameraStatus after = cameraStatus before)"

definition surfaced :: "CameraStream \<Rightarrow> CameraStream \<Rightarrow> bool" where
  "surfaced before after =
     (error after \<noteq> None \<and> requests after = requests before \<and> timers after = timers before)"

section \<open>Example runs\<close>

text \<open>
  States reached from the initial one: a first poll answered with an idle camera, then
  a stream started and its image opened; a stop in flight with a capture clicked on top
  of it; the selector after its modes arrived, and with a mode change in flight.
\<close>

definition example_status :: CameraStatus where
  "example_status =
     \<lparr>cs_status = active, cs_streaming = False, cs_last_access = Some 100,
      cs_current_mode =
        Some \<lparr>cm_width = 1920, cm_height = 1080, cm_framerate = 30, cm_name = ''Full HD''\<rparr>,
      cs_recording = Some \<lparr>rs_recording = False, rs_filename = None, rs_duration = Some 0,
                           rs_start_time = None\<rparr>\<rparr>"

definition stale_status :: CameraStatus where
  "stale_status = example_status\<lparr>cs_streaming := True, cs_last_access := Some 90\<rparr>"

definition recording_status :: CameraStatus where
  "recording_status =
     example_status\<lparr>cs_recording := Some \<lparr>rs_recording = True, rs_filename = Some ''clip.mp4'',
                                           rs_duration = Some 12, rs_start_time = Some 88\<rparr>\<rparr>"

definition example_idle :: CameraStream where
  "example_idle = checkStatus_response (Status_ok (Some example_status)) (poll initial)"

definition example_streaming :: CameraStream where
  "example_streaming =
     timer_fires (1000, StreamInit)
       (startStreaming_response (Status_ok (None :: unit option))
          (click Start_Stream example_idle))"

definition example_busy :: CameraStream where
  "example_busy = click Take_Picture (click Stop_Stream example_streaming)"

definition example_modes :: CameraModeData where
  "example_modes =
     \<lparr>available_modes =
        [\<lparr>me_id = ''1080p30'', me_name = ''Full HD'', me_width = 1920, me_height = 1080,
          me_framerate = 30, me_description = ''1920x1080 at 30 fps''\<rparr>,
         \<lparr>me_id = ''720p60'', me_name = ''HD'', me_width = 1280, me_height = 720,
          me_framerate = 60, me_description = ''1280x720 at 60 fps''\<rparr>],
      current_mode =
        \<lparr>cm_width = 1920, cm_height = 1080, cm_framerate = 30, cm_name = ''Full HD''\<rparr>\<rparr>"

definition example_selector :: CameraModeSelector where
  "example_selector =
     fetchModes_response (Status_ok (Some example_modes)) (fetchModes_begin sel_initial)"

definition example_changing :: CameraModeSelector where
  "example_changing =
     onValueChange (selector_props example_streaming) ''720p60'' example_selector"

definition example_file :: MediaFile where
  "example_file =
     \<lparr>mf_filename = ''a.jpg'', mf_url = ''/pictures/a.jpg'', mf_size = 2048,
      mf_created = 1700000000\<rparr>"

section \<open>Evaluating the example runs\<close>

lemmas stream_defs =
  send_def setTimeout_def imgRef_current_def checkStatus_begin_def checkStatus_response_def
  number_or_zero_def error_or_def
  startStreaming_begin_def startStreaming_response_def stopStreaming_begin_def
  stopStreaming_response_def restartCamera_begin_def restartCamera_response_def
  restartCamera_status_def restartCamera_def handleImageError_def handleImageLoad_def
  capturePicture_begin_def capturePicture_response_def startRecording_begin_def
  startRecording_response_def stopRecording_begin_def stopRecording_response_def
  timer_fires_def poll_def has_status_def click_def

lemmas selector_defs =
  fetchModes_begin_def fetchModes_response_def changeMode_returns_early_def changeMode_begin_def
  changeMode_response_def changeMode_def onValueChange_def selector_props_def error_or_def

lemma example_idle_eq:
  "example_idle =
     initial\<lparr>cameraStatus := Some example_status, isServerConnected := True,
             requests := [GET_status]\<rparr>"
  by (simp add: example_idle_def example_status_def initial_def stream_defs)

lemma example_streaming_eq:
  "example_streaming =
     initial\<lparr>cameraStatus := Some example_status, isServerConnected := True,
             isStreaming := True, requests := [GET_status, GET_start, GET_stream],
             timers := [(2000, StatusCheck)]\<rparr>"
  by (simp add: example_streaming_def example_idle_eq example_status_def initial_def stream_defs)

lemma example_selector_eq:
  "example_selector =
     sel_initial\<lparr>modes := available_modes example_modes,
                 currentMode := Some (hd (available_modes example_modes)),
                 selectedModeId := ''1080p30'', sel_requests := [GET_modes]\<rparr>"
  by (simp add: example_selector_def example_modes_def sel_initial_def selector_defs)

section \<open>Preconditions of capture and recording\<close>

text \<open>
  C1, as the code has it. A click on Take Picture while \<^verbatim>\<open>isStreaming\<close> is false
  does nothing at all: the button is disabled, so nothing is sent, the state is the
  same, and no error value is produced. Start Recording is not tied to streaming: its
  click sends the request unless a recording is already shown as active, the server
  is disconnected or no status has arrived.
\<close>

theorem C1_capture_gated_on_streaming:
  assumes "\<not> isStreaming st"
  shows "click Take_Picture st = st \<and>
         requests (click Start_Recording st) =
           (if isRecording st \<or> \<not> isServerConnected st \<or> \<not> has_status st
            then requests st else requests st @ [POST_recording_start])"
  using assms by (simp add: click_def startRecording_begin_def send_def)

theorem C1_capture_gated_on_streaming_witness:
  "\<not> isStreaming example_idle \<and> click Take_Picture example_idle = example_idle \<and>
   requests (click Start_Recording example_idle) = [GET_status, POST_recording_start]"
proof -
  have h: "\<not> isStreaming example_idle"
    by (simp add: example_idle_eq initial_def)
  show ?thesis
    using h C1_capture_gated_on_streaming [OF h]
    by (simp add: example_idle_eq initial_def has_status_def example_status_def)
qed

text \<open>
  C1 as stated fails for START_RECORD: with the stream off, both in the component and in
  the status last received, a click on Start Recording sends the request and shows no
  error.
\<close>

theorem C1_start_recording_counterexample:
  "\<not> isStreaming example_idle \<and>
   map_option cs_streaming (cameraStatus example_idle) = Some False \<and>
   requests (click Start_Recording example_idle) = requests example_idle @ [POST_recording_start] \<and>
   error (click Start_Recording example_idle) = None"
  by (simp add: example_idle_eq initial_def example_status_def stream_defs)

section \<open>Commands in flight\<close>

text \<open>
  C2, as the code has it. While a start, stop or restart is in flight
  (\<^verbatim>\<open>isLoading\<close>), clicks on start, stop, restart and Refresh Status and a mode
  selection are dropped: nothing is sent and the state is the same. While a capture is
  in flight a second capture is dropped, and while a mode change is in flight a second
  selection is dropped. Each of these handlers raises its flag when it begins. The
  periodic poll sends its status request in every state.
\<close>

theorem C2_in_flight_gates:
  "(isLoading st \<longrightarrow>
      click Start_Stream st = st \<and> click Stop_Stream st = st \<and> click Restart_Camera st = st \<and>
      click Refresh_Status st = st \<and> onValueChange (selector_props st) modeId sel = sel) \<and>
   (isCapturing st \<longrightarrow> click Take_Picture st = st) \<and>
   (isChanging sel \<longrightarrow> onValueChange props modeId sel = sel) \<and>
   isLoading (startStreaming_begin st) \<and> isLoading (stopStreaming_begin st) \<and>
   isLoading (restartCamera_begin st) \<and> isCapturing (capturePicture_begin st) \<and>
   (\<not> changeMode_returns_early modeId sel \<longrightarrow> isChanging (changeMode_begin modeId sel)) \<and>
   requests (poll st) = requests st @ [GET_status]"
  by (simp add: click_def onValueChange_def selector_props_def startStreaming_begin_def
      stopStreaming_begin_def restartCamera_begin_def capturePicture_begin_def
      changeMode_begin_def poll_def checkStatus_begin_def send_def)

theorem C2_in_flight_gates_witness:
  "isLoading example_busy \<and> isCapturing example_busy \<and> isChanging example_changing \<and>
   \<not> changeMode_returns_early ''720p60'' example_selector \<and>
   isChanging (changeMode_begin ''720p60'' example_selector) \<and>
   click Start_Stream example_busy = example_busy \<and>
   click Stop_Stream example_busy = example_busy \<and>
   click Restart_Camera example_busy = example_busy \<and>
   click Refresh_Status example_busy = example_busy \<and>
   click Take_Picture example_busy = example_busy \<and>
   onValueChange (selector_props example_busy) ''720p60'' example_selector = example_selector \<and>
   onValueChange (selector_props example_streaming) ''1080p30'' example_changing
     = example_changing \<and>
   requests (poll example_busy)
     = [GET_status, GET_start, GET_stream, GET_stop, POST_capture, GET_status]"
proof -
  have busy: "isLoading example_busy \<and> isCapturing example_busy"
    by (simp add: example_busy_def example_streaming_eq initial_def example_status_def
        stream_defs)
  have changing: "isChanging example_changing"
    by (simp add: example_changing_def example_selector_eq example_streaming_eq
        example_modes_def initial_def sel_initial_def selector_defs)
  have late: "\<not> changeMode_returns_early ''720p60'' example_selector"
    by (simp add: example_selector_eq example_modes_def sel_initial_def
        changeMode_returns_early_def)
  have reqs: "requests example_busy = [GET_status, GET_start, GET_stream, GET_stop, POST_capture]"
    by (simp add: example_busy_def example_streaming_eq initial_def example_status_def
        stream_defs)
  show ?thesis
    using busy changing late reqs
      C2_in_flight_gates [of example_busy "''720p60''" example_selector]
      C2_in_flight_gates [of example_busy "''1080p30''" example_changing
        "selector_props example_streaming"]
    by simp
qed

text \<open>
  C2 as stated fails: with a stop in flight (\<^verbatim>\<open>isLoading\<close> set, the stop request
  sent and not yet answered), a click on Take Picture sends the capture request.
\<close>

theorem C2_capture_during_stop_counterexample:
  "isLoading (click Stop_Stream example_streaming) \<and>
   requests (click Stop_Stream example_streaming) = requests example_streaming @ [GET_stop] \<and>
   requests (click Take_Picture (click Stop_Stream example_streaming)) =
     requests example_streaming @ [GET_stop, POST_capture]"
  by (simp add: example_streaming_eq initial_def example_status_def stream_defs)

section \<open>Feed errors\<close>

text \<open>
  While the stream is on, an error of the image schedules a reload 2000 ms later, and
  the reload opens the feed again. Nothing records that a reload has already been tried,
  so this holds in every streaming state, whatever came before.
\<close>

lemma feed_error_reopens:
  assumes "isStreaming st"
  shows "timers (handleImageError st) = timers st @ [(2000, ErrorRetry True)] \<and>
         requests (timer_fires (2000, ErrorRetry True) (handleImageError st))
           = requests st @ [GET_stream] \<and>
         isStreaming (timer_fires (2000, ErrorRetry True) (handleImageError st)) \<and>
         error (timer_fires (2000, ErrorRetry True) (handleImageError st)) = error st"
  using assms
  by (simp add: handleImageError_def timer_fires_def setTimeout_def send_def imgRef_current_def)

text \<open>So \<open>n\<close> feed errors in a row, each followed by its timer, open the feed \<open>n\<close> more times.\<close>

lemma feed_errors_reopen_without_bound:
  assumes "isStreaming st"
  shows "isStreaming (((\<lambda>s. timer_fires (2000, ErrorRetry True) (handleImageError s)) ^^ n) st) \<and>
         requests (((\<lambda>s. timer_fires (2000, ErrorRetry True) (handleImageError s)) ^^ n) st)
           = requests st @ replicate n GET_stream"
proof (induction n)
  case 0
  show ?case using assms by simp
next
  case (Suc n)
  then show ?case
    using feed_error_reopens
      [of "((\<lambda>s. timer_fires (2000, ErrorRetry True) (handleImageError s)) ^^ n) st"]
    by (simp add: replicate_append_same)
qed

text \<open>
  C3 on the code: a feed error, its reload, and a second feed error on the reloaded
  image. The feed opened by \<^verbatim>\<open>startStreaming\<close> and the two reloads make three
  opens; the stream is still on, no error is shown, and a third feed error schedules
  one more reload.
\<close>

theorem C3_second_feed_error_retries_again:
  "(let s1 = timer_fires (2000, ErrorRetry True) (handleImageError example_streaming);
        s2 = timer_fires (2000, ErrorRetry True) (handleImageError s1)
    in filter (\<lambda>q. q = GET_stream) (requests s2) = [GET_stream, GET_stream, GET_stream] \<and>
       isStreaming s2 \<and> error s2 = None \<and>
       (2000, ErrorRetry True) \<in> set (timers (handleImageError s2)))"
  by (simp add: example_streaming_eq initial_def example_status_def stream_defs Let_def)

section \<open>Status responses\<close>

text \<open>
  C4, as the code has it. A successful status response always becomes the visible
  status: after any sequence of responses that ends with a successful one, the visible
  status is that last response, whatever times it and the earlier ones carry.
\<close>

theorem C4_last_response_wins:
  "cameraStatus (foldl (\<lambda>st r. checkStatus_response r st) st (rs @ [Status_ok (Some s)])) = Some s"
  by (simp add: checkStatus_response_def Let_def split: option.splits)

theorem C4_last_response_wins_witness:
  "cameraStatus (foldl (\<lambda>st r. checkStatus_response r st) initial
     [Status_ok (Some example_status), Rejected, Status_ok (Some stale_status)])
   = Some stale_status"
  using C4_last_response_wins [of initial "[Status_ok (Some example_status), Rejected]" stale_status]
  by simp

text \<open>
  C4 as stated fails: the visible status has \<^verbatim>\<open>last_access\<close> 100, a response with
  \<^verbatim>\<open>last_access\<close> 90 arrives, and it replaces the visible status.
\<close>

theorem C4_stale_response_counterexample:
  "map_option cs_last_access (cameraStatus example_idle) = Some (Some 100) \<and>
   cs_last_access stale_status = Some 90 \<and>
   cameraStatus (checkStatus_response (Status_ok (Some stale_status)) example_idle)
     = Some stale_status \<and>
   cameraStatus (checkStatus_response (Status_ok (Some stale_status)) example_idle)
     \<noteq> cameraStatus example_idle"
  by (simp add: example_idle_eq initial_def example_status_def stale_status_def stream_defs)

text \<open>
  C5. A status fetch that gives no result sets \<^verbatim>\<open>isServerConnected\<close> to false and
  leaves the status, with its mode, and the recording flag and duration as they were. A
  successful fetch after it sets \<^verbatim>\<open>isServerConnected\<close> to true and makes its body the
  visible status; the recording flag and duration are taken from the body's recording
  object (a body without one leaves the two as they were).
\<close>

theorem C5_poll_failure_and_recovery:
  assumes "no_result r"
  shows "(let st1 = checkStatus_response r st;
              st2 = checkStatus_response (Status_ok (Some s)) st1
          in \<not> isServerConnected st1 \<and> cameraStatus st1 = cameraStatus st \<and>
             isRecording st1 = isRecording st \<and> recordingDuration st1 = recordingDuration st \<and>
             isServerConnected st2 \<and> cameraStatus st2 = Some s \<and>
             (case cs_recording s of
                Some rec \<Rightarrow> isRecording st2 = rs_recording rec \<and>
                            recordingDuration st2 = number_or_zero (rs_duration rec)
              | None \<Rightarrow> isRecording st2 = isRecording st \<and>
                        recordingDuration st2 = recordingDuration st))"
  using assms
  by (auto simp: no_result_def checkStatus_response_def Let_def
      split: response.splits option.splits)

theorem C5_poll_failure_and_recovery_witness:
  "no_result (Rejected :: CameraStatus response) \<and>
   \<not> isServerConnected (checkStatus_response Rejected example_idle) \<and>
   cameraStatus (checkStatus_response Rejected example_idle) = Some example_status \<and>
   isServerConnected (checkStatus_response (Status_ok (Some recording_status))
                        (checkStatus_response Rejected example_idle)) \<and>
   cameraStatus (checkStatus_response (Status_ok (Some recording_status))
                   (checkStatus_response Rejected example_idle)) = Some recording_status \<and>
   isRecording (checkStatus_response (Status_ok (Some recording_status))
                  (checkStatus_response Rejected example_idle)) \<and>
   recordingDuration (checkStatus_response (Status_ok (Some recording_status))
                        (checkStatus_response Rejected example_idle)) = 12"
proof -
  have h: "no_result (Rejected :: CameraStatus response)"
    by (simp add: no_result_def)
  show ?thesis
    using h C5_poll_failure_and_recovery [OF h, of example_idle recording_status]
    by (simp add: Let_def example_idle_eq initial_def recording_status_def example_status_def
        number_or_zero_def)
qed

section \<open>Changing the mode\<close>

text \<open>
  C6. A mode change to the id of the current mode returns at once: the handler leaves
  the whole state of the selector as it was, so nothing is sent and no error is set,
  whatever the response would have been.
\<close>

theorem C6_same_mode_is_noop:
  assumes "currentMode sel = Some m"
  shows "changeMode_begin (me_id m) sel = sel \<and> changeMode props (me_id m) r sel = sel \<and>
         onValueChange props (me_id m) sel = sel"
  using assms
  by (simp add: changeMode_begin_def changeMode_def changeMode_returns_early_def
      onValueChange_def)

theorem C6_same_mode_is_noop_witness:
  "currentMode example_selector = Some (hd (available_modes example_modes)) \<and>
   changeMode (selector_props example_streaming) ''1080p30'' (Status_ok (Some ())) example_selector
     = example_selector \<and>
   sel_requests (onValueChange (selector_props example_streaming) ''1080p30'' example_selector)
     = [GET_modes]"
proof -
  have h: "currentMode example_selector = Some (hd (available_modes example_modes))"
    by (simp add: example_selector_eq)
  have i: "me_id (hd (available_modes example_modes)) = ''1080p30''"
    by (simp add: example_modes_def)
  have q: "sel_requests example_selector = [GET_modes]"
    by (simp add: example_selector_eq)
  show ?thesis
    using h q
      C6_same_mode_is_noop [OF h, of "selector_props example_streaming" "Status_ok (Some ())"]
    by (simp add: i)
qed

text \<open>
  When the mode change is answered with 2xx and the requested id is among the captured
  modes, that mode becomes the current and the selected one and the callback, if given,
  is called with it.
\<close>

lemma changeMode_known_mode:
  "find (\<lambda>mode. me_id mode = modeId) captured = Some newMode \<Longrightarrow>
   (let sel' = changeMode_response props captured modeId (Status_ok (Some data)) sel
    in currentMode sel' = Some newMode \<and> selectedModeId sel' = modeId \<and>
       onModeChange_calls sel' =
         onModeChange_calls sel @ (if has_onModeChange props then [newMode] else []))"
  by (simp add: changeMode_response_def Let_def)

text \<open>
  C10. When the requested id is not among the modes the handler searches, the current
  mode and the selected id stay as they were and \<^verbatim>\<open>onModeChange\<close> is not called,
  whatever the response; the same holds for the whole handler when the id is not among
  the modes of the state it is called in.
\<close>

theorem C10_unknown_mode_changes_nothing:
  assumes "find (\<lambda>mode. me_id mode = modeId) captured = None"
  shows "(let sel' = changeMode_response props captured modeId r sel
          in currentMode sel' = currentMode sel \<and> selectedModeId sel' = selectedModeId sel \<and>
             onModeChange_calls sel' = onModeChange_calls sel) \<and>
         (find (\<lambda>mode. me_id mode = modeId) (modes sel) = None \<longrightarrow>
            currentMode (changeMode props modeId r sel) = currentMode sel \<and>
            selectedModeId (changeMode props modeId r sel) = selectedModeId sel \<and>
            onModeChange_calls (changeMode props modeId r sel) = onModeChange_calls sel)"
  using assms
  by (cases r)
     (simp_all add: changeMode_response_def changeMode_def changeMode_begin_def Let_def
        split: option.splits)

theorem C10_unknown_mode_changes_nothing_witness:
  "find (\<lambda>mode. me_id mode = ''4k15'') (modes example_selector) = None \<and>
   currentMode (changeMode (selector_props example_streaming) ''4k15'' (Status_ok (Some ()))
                  example_selector) = Some (hd (available_modes example_modes)) \<and>
   selectedModeId (changeMode (selector_props example_streaming) ''4k15'' (Status_ok (Some ()))
                     example_selector) = ''1080p30'' \<and>
   onModeChange_calls (changeMode (selector_props example_streaming) ''4k15'' (Status_ok (Some ()))
                         example_selector) = [] \<and>
   sel_requests (changeMode (selector_props example_streaming) ''4k15'' (Status_ok (Some ()))
                   example_selector) = [GET_modes, POST_mode ''4k15'']"
proof -
  have h: "find (\<lambda>mode. me_id mode = ''4k15'') (modes example_selector) = None"
    by (simp add: example_selector_eq example_modes_def sel_initial_def)
  have q: "sel_requests (changeMode (selector_props example_streaming) ''4k15''
                           (Status_ok (Some ())) example_selector)
             = [GET_modes, POST_mode ''4k15'']"
    by (simp add: example_selector_eq example_modes_def sel_initial_def selector_defs)
  show ?thesis
    using h q
      C10_unknown_mode_changes_nothing [OF h, of "selector_props example_streaming"
        "Status_ok (Some ())" example_selector]
    by (simp add: example_selector_eq sel_initial_def)
qed

section \<open>Failed commands\<close>

lemma startStreaming_fails:
  "not_ok r \<Longrightarrow>
     preserved st (startStreaming_begin st) \<and> preserved st' (startStreaming_response r st') \<and>
     surfaced st' (startStreaming_response r st') \<and> \<not> isLoading (startStreaming_response r st')"
  by (cases r)
     (simp_all add: not_ok_def preserved_def surfaced_def startStreaming_begin_def
        startStreaming_response_def send_def)

lemma stopStreaming_fails:
  "not_ok r \<Longrightarrow>
     preserved st (stopStreaming_begin st) \<and> preserved st' (stopStreaming_response r st') \<and>
     surfaced st' (stopStreaming_response r st') \<and> \<not> isLoading (stopStreaming_response r st')"
  by (cases r)
     (simp_all add: not_ok_def preserved_def surfaced_def stopStreaming_begin_def
        stopStreaming_response_def send_def)

lemma restartCamera_fails:
  "not_ok r \<Longrightarrow>
     preserved st (restartCamera_begin st) \<and> preserved st' (restartCamera_response r st') \<and>
     surfaced st' (restartCamera_response r st') \<and> \<not> isLoading (restartCamera_response r st')"
  by (cases r)
     (simp_all add: not_ok_def preserved_def surfaced_def restartCamera_begin_def
        restartCamera_response_def send_def)

lemma capturePicture_fails:
  "no_result r \<Longrightarrow>
     preserved st (capturePicture_begin st) \<and> preserved st' (capturePicture_response r st') \<and>
     surfaced st' (capturePicture_response r st') \<and>
     \<not> isCapturing (capturePicture_response r st')"
  by (cases r)
     (simp_all add: no_result_def preserved_def surfaced_def capturePicture_begin_def
        capturePicture_response_def send_def split: option.splits)

lemma startRecording_fails:
  "no_result r \<Longrightarrow>
     preserved st (startRecording_begin st) \<and> preserved st' (startRecording_response r st') \<and>
     surfaced st' (startRecording_response r st')"
  by (cases r)
     (simp_all add: no_result_def preserved_def surfaced_def startRecording_begin_def
        startRecording_response_def send_def split: option.splits)

lemma stopRecording_fails:
  "no_result r \<Longrightarrow>
     preserved st (stopRecording_begin st) \<and> preserved st' (stopRecording_response r st') \<and>
     surfaced st' (stopRecording_response r st')"
  by (cases r)
     (simp_all add: no_result_def preserved_def surfaced_def stopRecording_begin_def
        stopRecording_response_def send_def split: option.splits)

lemma changeMode_fails:
  "no_result r \<Longrightarrow>
     (let sel' = changeMode_response props captured modeId r sel
      in currentMode sel' = currentMode sel \<and> selectedModeId sel' = selectedModeId sel \<and>
         sel_error sel' \<noteq> None \<and> \<not> isChanging sel' \<and> sel_requests sel' = sel_requests sel \<and>
         onModeChange_calls sel' = onModeChange_calls sel)"
  by (cases r)
     (simp_all add: no_result_def changeMode_response_def Let_def split: option.splits)

text \<open>
  C7. For each command: the part of the handler before the call leaves the streaming
  and recording state as it was; when the call fails, the part after it, in whatever
  state \<open>st'\<close> it resumes, leaves that state as it was too, sets an error message,
  sends nothing and schedules nothing, and lowers the flag the handler had raised
  (\<^verbatim>\<open>isLoading\<close>, \<^verbatim>\<open>isCapturing\<close>, \<^verbatim>\<open>isChanging\<close>; the recording handlers have
  none). \<open>r\<close> is the failed response of start, stop and restart, \<open>rc\<close>, \<open>rs\<close>,
  \<open>rp\<close> and \<open>rm\<close> those of capture, start recording, stop recording and mode change.
\<close>

theorem C7_failed_command_changes_nothing:
  assumes "not_ok r" and "no_result rc" and "no_result rs" and "no_result rp" and "no_result rm"
  shows "preserved st (startStreaming_begin st) \<and> preserved st' (startStreaming_response r st') \<and>
         surfaced st' (startStreaming_response r st') \<and>
         \<not> isLoading (startStreaming_response r st') \<and>
         preserved st (stopStreaming_begin st) \<and> preserved st' (stopStreaming_response r st') \<and>
         surfaced st' (stopStreaming_response r st') \<and>
         \<not> isLoading (stopStreaming_response r st') \<and>
         preserved st (restartCamera_begin st) \<and> preserved st' (restartCamera_response r st') \<and>
         surfaced st' (restartCamera_response r st') \<and>
         \<not> isLoading (restartCamera_response r st') \<and>
         preserved st (capturePicture_begin st) \<and> preserved st' (capturePicture_response rc st') \<and>
         surfaced st' (capturePicture_response rc st') \<and>
         \<not> isCapturing (capturePicture_response rc st') \<and>
         preserved st (startRecording_begin st) \<and> preserved st' (startRecording_response rs st') \<and>
         surfaced st' (startRecording_response rs st') \<and>
         preserved st (stopRecording_begin st) \<and> preserved st' (stopRecording_response rp st') \<and>
         surfaced st' (stopRecording_response rp st') \<and>
         (let sel' = changeMode_response props captured modeId rm sel
          in currentMode sel' = currentMode sel \<and> selectedModeId sel' = selectedModeId sel \<and>
             sel_error sel' \<noteq> None \<and> \<not> isChanging sel' \<and>
             sel_requests sel' = sel_requests sel \<and>
             onModeChange_calls sel' = onModeChange_calls sel)"
  using startStreaming_fails [OF assms(1), of st st'] stopStreaming_fails [OF assms(1), of st st']
    restartCamera_fails [OF assms(1), of st st'] capturePicture_fails [OF assms(2), of st st']
    startRecording_fails [OF assms(3), of st st'] stopRecording_fails [OF assms(4), of st st']
    changeMode_fails [OF assms(5), of props captured modeId sel]
  by blast

theorem C7_failed_command_changes_nothing_witness:
  "not_ok (Status_not_ok (Some (Some ''camera busy'')) :: unit response) \<and>
   no_result (Rejected :: CapturedImage response) \<and>
   no_result (Status_ok None :: StartedRecording response) \<and>
   no_result (Status_not_ok None :: SavedRecording response) \<and>
   no_result (Rejected :: unit response) \<and>
   preserved example_idle
     (startStreaming_response (Status_not_ok (Some (Some ''camera busy'')) :: unit response)
        (startStreaming_begin example_idle)) \<and>
   error (startStreaming_response (Status_not_ok (Some (Some ''camera busy'')) :: unit response)
            (startStreaming_begin example_idle)) = Some ''camera busy'' \<and>
   \<not> isStreaming
       (startStreaming_response (Status_not_ok (Some (Some ''camera busy'')) :: unit response)
          (startStreaming_begin example_idle)) \<and>
   preserved example_streaming (stopRecording_response (Status_not_ok None) example_streaming) \<and>
   error (capturePicture_response Rejected example_streaming) \<noteq> None"
proof -
  have h1: "not_ok (Status_not_ok (Some (Some ''camera busy'')) :: unit response)"
    by (simp add: not_ok_def)
  have h2: "no_result (Rejected :: CapturedImage response)"
    by (simp add: no_result_def)
  have h3: "no_result (Status_ok None :: StartedRecording response)"
    by (simp add: no_result_def)
  have h4: "no_result (Status_not_ok None :: SavedRecording response)"
    by (simp add: no_result_def)
  have h5: "no_result (Rejected :: unit response)"
    by (simp add: no_result_def)
  have e: "error (startStreaming_response
                    (Status_not_ok (Some (Some ''camera busy'')) :: unit response)
                    (startStreaming_begin example_idle)) = Some ''camera busy''"
    by (simp add: startStreaming_response_def error_or_def)
  have p: "preserved example_idle
             (startStreaming_response
                (Status_not_ok (Some (Some ''camera busy'')) :: unit response)
                (startStreaming_begin example_idle))"
    by (simp add: startStreaming_response_def startStreaming_begin_def send_def preserved_def)
  have n: "\<not> isStreaming example_idle"
    by (simp add: example_idle_eq initial_def)
  show ?thesis
    using h1 h2 h3 h4 h5 e p n
      C7_failed_command_changes_nothing [OF h1 h2 h3 h4 h5, of example_idle example_streaming]
    by (simp add: surfaced_def preserved_def)
qed

section \<open>Restart\<close>

text \<open>
  C8, as the code has it. After a 2xx answer to the restart, the status request is sent
  while \<^verbatim>\<open>isLoading\<close> is still set, and the handler finishes only after the status
  response has been applied. The handler keeps \<^verbatim>\<open>isStreaming\<close> as it was when it
  was called, and when that was true it schedules a reload of the stream image 1000 ms
  later.
\<close>

theorem C8_restart_refreshes_status:
  "(let st1 = restartCamera_response (Status_ok b) (restartCamera_begin st);
        st2 = restartCamera (Status_ok b) s st
    in requests st1 = requests st @ [GET_restart, GET_status] \<and> isLoading st1 \<and>
       st2 = (if isStreaming st then setTimeout RestartReload 1000 (checkStatus_response s st1)
              else checkStatus_response s st1)\<lparr>isLoading := False\<rparr> \<and>
       isStreaming st2 = isStreaming st \<and>
       timers st2 = timers st @ (if isStreaming st then [(1000, RestartReload)] else []))"
  by (cases s)
     (simp_all add: restartCamera_def restartCamera_status_def restartCamera_response_def
       restartCamera_begin_def checkStatus_begin_def checkStatus_response_def send_def
       setTimeout_def Let_def split: option.splits)

theorem C8_restart_refreshes_status_witness:
  "requests (restartCamera_response (Status_ok (Some ())) (restartCamera_begin example_streaming))
     = [GET_status, GET_start, GET_stream, GET_restart, GET_status] \<and>
   isStreaming (restartCamera (Status_ok (Some ())) (Status_ok (Some example_status))
                  example_streaming) \<and>
   timers (restartCamera (Status_ok (Some ())) (Status_ok (Some example_status)) example_streaming)
     = [(2000, StatusCheck), (1000, RestartReload)]"
proof -
  have s: "isStreaming example_streaming" "timers example_streaming = [(2000, StatusCheck)]"
    "requests example_streaming = [GET_status, GET_start, GET_stream]"
    by (simp_all add: example_streaming_eq initial_def)
  have t:
    "requests (restartCamera_response (Status_ok (Some ())) (restartCamera_begin example_streaming))
       = requests example_streaming @ [GET_restart, GET_status] \<and>
     isStreaming (restartCamera (Status_ok (Some ())) (Status_ok (Some example_status))
                    example_streaming) = isStreaming example_streaming \<and>
     timers (restartCamera (Status_ok (Some ())) (Status_ok (Some example_status)) example_streaming)
       = timers example_streaming @
           (if isStreaming example_streaming then [(1000, RestartReload)] else [])"
    using C8_restart_refreshes_status
      [of "Some ()" example_streaming "Status_ok (Some example_status)"]
    unfolding Let_def by blast
  show ?thesis
    using t s by simp
qed

text \<open>
  C8 as stated fails in its second half: the stream was on before the restart and the
  status fetched after it reports no streaming, yet the component still has
  \<^verbatim>\<open>isStreaming\<close> true, and the reload it scheduled opens the feed again.
\<close>

theorem C8_streaming_assumed_counterexample:
  "cs_streaming example_status = False \<and>
   isStreaming (restartCamera (Status_ok (Some ())) (Status_ok (Some example_status))
                  example_streaming) \<and>
   map_option cs_streaming
     (cameraStatus (restartCamera (Status_ok (Some ())) (Status_ok (Some example_status))
        example_streaming)) = Some False \<and>
   (1000, RestartReload) \<in> set (timers (restartCamera (Status_ok (Some ()))
                                     (Status_ok (Some example_status)) example_streaming)) \<and>
   requests (timer_fires (1000, RestartReload)
     (restartCamera (Status_ok (Some ())) (Status_ok (Some example_status)) example_streaming)) =
     requests example_streaming @ [GET_restart, GET_status, GET_stream]"
  by (simp add: example_streaming_eq initial_def example_status_def stream_defs)

section \<open>The gallery\<close>

lemma foldl_sizes:
  "foldl (\<lambda>sum file. sum + mf_size file) a files = a + sum_list (map mf_size files)"
  by (induction files arbitrary: a) simp_all

text \<open>
  C9. When both responses are 2xx and both bodies parse, each list of the gallery is
  the body's list, or the empty list when the body has no such field; the file count
  and the total size are the length and the sum of sizes over those two lists, so an
  absent field counts as no files and no bytes. No error is set and loading ends. When
  a 2xx body does not parse, the lists stay as they were.
\<close>

theorem C9_gallery_lists_default_to_empty:
  "(let g = fetchGalleryData_response (Status_ok (Some picturesData))
              (Status_ok (Some recordingsData)) st
    in pictures (galleryData g) = (case picturesData of None \<Rightarrow> [] | Some files \<Rightarrow> files) \<and>
       recordings (galleryData g) = (case recordingsData of None \<Rightarrow> [] | Some files \<Rightarrow> files) \<and>
       totalFiles g = length (pictures (galleryData g)) + length (recordings (galleryData g)) \<and>
       totalSize g = sum_list (map mf_size (pictures (galleryData g))) +
                     sum_list (map mf_size (recordings (galleryData g))) \<and>
       g_error g = g_error st \<and> \<not> g_isLoading g) \<and>
   pictures (galleryData (fetchGalleryData_response (Status_ok (Some None))
                            (Status_ok (Some recordingsData)) st)) = [] \<and>
   recordings (galleryData (fetchGalleryData_response (Status_ok (Some picturesData))
                              (Status_ok (Some None)) st)) = [] \<and>
   totalFiles (fetchGalleryData_response (Status_ok (Some None)) (Status_ok (Some None)) st) = 0 \<and>
   totalSize (fetchGalleryData_response (Status_ok (Some None)) (Status_ok (Some None)) st) = 0 \<and>
   galleryData (fetchGalleryData_response (Status_ok p) (Status_ok r) st) =
     (case (p, r) of
        (Some picturesData, Some recordingsData) \<Rightarrow>
          \<lparr>pictures = array_or_empty picturesData,
           recordings = array_or_empty recordingsData\<rparr>
      | _ \<Rightarrow> galleryData st)"
  by (simp add: fetchGalleryData_response_def array_or_empty_def totalFiles_def totalSize_def
      foldl_sizes Let_def split: option.splits)

theorem C9_gallery_lists_default_to_empty_witness:
  "galleryData (fetchGalleryData_response (Status_ok (Some (Some [example_file])))
                  (Status_ok (Some None)) (fetchGalleryData_begin g_initial))
     = \<lparr>pictures = [example_file], recordings = []\<rparr> \<and>
   totalFiles (fetchGalleryData_response (Status_ok (Some (Some [example_file])))
                 (Status_ok (Some None)) (fetchGalleryData_begin g_initial)) = 1 \<and>
   totalSize (fetchGalleryData_response (Status_ok (Some (Some [example_file])))
                (Status_ok (Some None)) (fetchGalleryData_begin g_initial)) = 2048"
  using C9_gallery_lists_default_to_empty
    [of "Some [example_file]" None "fetchGalleryData_begin g_initial"]
  by (simp add: Let_def example_file_def array_or_empty_def)

end
